theory Spec2Isabelle
  imports Complex_Main "HOL-Library.Sublist" "HOL-Library.Multiset"
begin

section \<open>Values of the trade service (src/main.py)\<close>

subsection \<open>Python values the endpoints compare\<close>

text \<open>
  A Python \<^verbatim>\<open>float\<close>. The program never does arithmetic on prices, it only compares
  them and tests them for truth, so a finite float is kept as the rational it denotes
  (\<open>0.0\<close> and \<open>-0.0\<close> are both \<open>Fin 0\<close>: they compare equal and are both false).
\<close>

datatype pyfloat = Fin rat | PosInf | NegInf | NaN

text \<open>\<^verbatim>\<open>a <= b\<close> on floats: false as soon as one side is NaN.\<close>

fun float_le :: "pyfloat \<Rightarrow> pyfloat \<Rightarrow> bool" where
  "float_le NaN b = False"
| "float_le a NaN = False"
| "float_le NegInf b = True"
| "float_le a PosInf = True"
| "float_le (Fin a) (Fin b) = (a \<le> b)"
| "float_le a b = False"

text \<open>\<^verbatim>\<open>a >= b\<close> on floats.\<close>

definition float_ge :: "pyfloat \<Rightarrow> pyfloat \<Rightarrow> bool" where
  "float_ge a b = float_le b a"

text \<open>
  A Python \<^verbatim>\<open>datetime\<close>: naive (no tzinfo) or aware. Only comparisons are made, so
  a naive value is kept as an integer that orders the calendar fields and an aware one as
  its UTC instant. Ordering a naive against an aware value raises TypeError.
\<close>

datatype datetime = Naive int | Aware int

definition naive_aware_msg :: string where
  "naive_aware_msg =
     ''can'' @ [CHR 0x27] @ ''t compare offset-naive and offset-aware datetimes''"

fun dt_le :: "datetime \<Rightarrow> datetime \<Rightarrow> string + bool" where
  "dt_le (Naive a) (Naive b) = Inr (a \<le> b)"
| "dt_le (Aware a) (Aware b) = Inr (a \<le> b)"
| "dt_le a b = Inl naive_aware_msg"

fun dt_ge :: "datetime \<Rightarrow> datetime \<Rightarrow> string + bool" where
  "dt_ge (Naive a) (Naive b) = Inr (b \<le> a)"
| "dt_ge (Aware a) (Aware b) = Inr (b \<le> a)"
| "dt_ge a b = Inl naive_aware_msg"

fun is_naive :: "datetime \<Rightarrow> bool" where
  "is_naive (Naive a) = True"
| "is_naive (Aware a) = False"

fun dt_ord :: "datetime \<Rightarrow> int" where
  "dt_ord (Naive a) = a"
| "dt_ord (Aware a) = a"

text \<open>
  \<^verbatim>\<open>datetime(year, month, day, hour, minute)\<close>: a naive value. The integer is
  order-preserving on the calendar fields (months of at most 31 days).
\<close>

definition mk_datetime :: "int \<Rightarrow> int \<Rightarrow> int \<Rightarrow> int \<Rightarrow> int \<Rightarrow> datetime" where
  "mk_datetime y m d hh mi = Naive ((((y * 12 + (m - 1)) * 31 + (d - 1)) * 24 + hh) * 60 + mi)"

text \<open>
  A character is a code point U+0000..U+00FF. On strings of such characters
  \<^verbatim>\<open>str.lower()\<close> works character by character and stays in that range: the letters
  A..Z and the capitals U+00C0..U+00DE, the sign U+00D7 excepted, move up by 32, and
  every other character is kept.
\<close>

definition char_lower :: "char \<Rightarrow> char" where
  "char_lower c =
     (let n = (of_char c :: nat)
      in if (65 \<le> n \<and> n \<le> 90) \<or> (192 \<le> n \<and> n \<le> 222 \<and> n \<noteq> 215)
         then char_of (n + 32) else c)"

definition py_lower :: "string \<Rightarrow> string" where
  "py_lower s = map char_lower s"

text \<open>\<^verbatim>\<open>a in b\<close> on strings: \<open>a\<close> occurs in \<open>b\<close> as a contiguous piece.\<close>

fun py_in :: "string \<Rightarrow> string \<Rightarrow> bool" where
  "py_in a [] = (a = [])"
| "py_in a (y # ys) = (prefix a (y # ys) \<or> py_in a ys)"

text \<open>\<^verbatim>\<open>str(i)\<close> for a non-negative integer.\<close>

definition digit_char :: "nat \<Rightarrow> char" where
  "digit_char d = char_of (48 + d)"

fun str_nat :: "nat \<Rightarrow> string" where
  "str_nat n = (if n < 10 then [digit_char n] else str_nat (n div 10) @ [digit_char (n mod 10)])"

declare str_nat.simps [simp del]

text \<open>
  Truth value of a string and of a float, as \<^verbatim>\<open>if param:\<close> tests a parameter that
  is not None (None itself is false; a datetime is always true).
\<close>

definition str_truthy :: "string \<Rightarrow> bool" where
  "str_truthy s = (s \<noteq> [])"

definition float_truthy :: "pyfloat \<Rightarrow> bool" where
  "float_truthy x = (x \<noteq> Fin 0)"

subsection \<open>The record schema\<close>

text \<open>
  The two pydantic models. \<open>asset_class\<close> and \<open>counterparty\<close> are Optional, and
  \<open>trade_id\<close> is declared \<^verbatim>\<open>str\<close> with default None, so it may be None as well.
\<close>

record TradeDetails =
  buySellIndicator :: string
  price :: pyfloat
  quantity :: int

record Trade =
  asset_class :: "string option"
  counterparty :: "string option"
  instrument_id :: string
  instrument_name :: string
  trade_date_time :: datetime
  trade_details :: TradeDetails
  trade_id :: "string option"
  trader :: string

subsection \<open>Raising computations\<close>

text \<open>A result is \<open>Inl msg\<close> when an exception with text \<open>msg\<close> was raised.\<close>

fun bind_e :: "string + 'a \<Rightarrow> ('a \<Rightarrow> string + 'b) \<Rightarrow> string + 'b" where
  "bind_e (Inl e) f = Inl e"
| "bind_e (Inr x) f = f x"

text \<open>
  A list comprehension \<^verbatim>\<open>[t for t in xs if P(t)]\<close> whose condition may raise:
  the first raising test aborts the comprehension.
\<close>

fun filter_e :: "('a \<Rightarrow> string + bool) \<Rightarrow> 'a list \<Rightarrow> string + 'a list" where
  "filter_e P [] = Inr []"
| "filter_e P (x # xs) =
     bind_e (P x) (\<lambda>b. bind_e (filter_e P xs) (\<lambda>ys. Inr (if b then x # ys else ys)))"

text \<open>
  \<^verbatim>\<open>xs[start:stop]\<close>: a negative index counts from the end, and both indices are
  clamped to the list.
\<close>

definition slice_index :: "int \<Rightarrow> nat \<Rightarrow> nat" where
  "slice_index i n =
     (if i < 0 then (if i + int n < 0 then 0 else nat (i + int n))
      else (if int n \<le> i then n else nat i))"

definition py_slice :: "'a list \<Rightarrow> int \<Rightarrow> int \<Rightarrow> 'a list" where
  "py_slice xs start stop =
     (let n = length xs; lo = slice_index start n; hi = slice_index stop n
      in take (hi - lo) (drop lo xs))"

text \<open>
  \<^verbatim>\<open>xs.sort(key=lambda trade: trade.trade_date_time, reverse=reverse)\<close>. The built-in
  sort is stable, also with \<open>reverse\<close> (it reverses, sorts and reverses again), and a
  comparison that raises aborts it: that happens exactly when naive and aware keys meet.
\<close>

definition date_key :: "Trade \<Rightarrow> int" where
  "date_key t = dt_ord (trade_date_time t)"

definition sortable :: "Trade list \<Rightarrow> bool" where
  "sortable ts =
     (list_all (\<lambda>t. is_naive (trade_date_time t)) ts
      \<or> list_all (\<lambda>t. \<not> is_naive (trade_date_time t)) ts)"

definition py_sort :: "bool \<Rightarrow> Trade list \<Rightarrow> string + Trade list" where
  "py_sort reverse ts =
     (if sortable ts
      then Inr (if reverse then rev (sort_key date_key (rev ts)) else sort_key date_key ts)
      else Inl naive_aware_msg)"

section \<open>The endpoints\<close>

subsection \<open>Query parameters and the response\<close>

record list_args =
  arg_asset_class :: "string option"
  arg_end :: "datetime option"
  arg_max_price :: "pyfloat option"
  arg_min_price :: "pyfloat option"
  arg_start :: "datetime option"
  arg_trade_type :: "string option"
  arg_page :: int
  arg_limit :: int
  arg_sort :: string

record page_result =
  total_count :: nat
  page :: int
  trades :: "Trade list"

subsection \<open>GET /trades\<close>

text \<open>
  One filter of the handler, \<^verbatim>\<open>if param: filtered_trades = [t for t in filtered_trades if test]\<close>:
  \<open>narrow\<close> for a test that cannot raise, \<open>narrow_e\<close> for a comparison of datetimes
  (a datetime parameter is true whenever it is not None).
\<close>

definition narrow :: "'p option \<Rightarrow> ('p \<Rightarrow> bool) \<Rightarrow> ('p \<Rightarrow> Trade \<Rightarrow> bool) \<Rightarrow> Trade list \<Rightarrow> Trade list" where
  "narrow param truthy test xs =
     (case param of
        None \<Rightarrow> xs
      | Some v \<Rightarrow> if truthy v then filter (test v) xs else xs)"

definition narrow_e ::
  "datetime option \<Rightarrow> (datetime \<Rightarrow> Trade \<Rightarrow> string + bool) \<Rightarrow> Trade list \<Rightarrow> string + Trade list" where
  "narrow_e param test xs =
     (case param of
        None \<Rightarrow> Inr xs
      | Some v \<Rightarrow> filter_e (test v) xs)"

text \<open>Lines 120 to 155: the value of \<open>filtered_trades\<close> once every filter has run.\<close>

definition filtered_trades :: "Trade list \<Rightarrow> list_args \<Rightarrow> string + Trade list" where
  "filtered_trades trades_db a =
     (let f0 = trades_db;
          f1 = narrow (arg_asset_class a) str_truthy (\<lambda>c t. asset_class t = Some c) f0
      in bind_e (narrow_e (arg_end a) (\<lambda>e t. dt_le (trade_date_time t) e) f1)
         (\<lambda>f2.
           let f3 = narrow (arg_max_price a) float_truthy
                      (\<lambda>m t. float_le (price (trade_details t)) m) f2;
               f4 = narrow (arg_min_price a) float_truthy
                      (\<lambda>m t. float_ge (price (trade_details t)) m) f3
           in bind_e (narrow_e (arg_start a) (\<lambda>s t. dt_ge (trade_date_time t) s) f4)
              (\<lambda>f5.
                Inr (narrow (arg_trade_type a) str_truthy
                       (\<lambda>k t. buySellIndicator (trade_details t) = k) f5))))"

text \<open>
  Lines 157 to 169 (and 204 to 216, the same text): count, slice, sort the slice,
  build the response.
\<close>

definition paginate_sort :: "Trade list \<Rightarrow> int \<Rightarrow> int \<Rightarrow> string \<Rightarrow> string + page_result" where
  "paginate_sort found page_arg limit_arg sort_arg =
     (let total_trades = length found;
          start_index = (page_arg - 1) * limit_arg;
          end_index = start_index + limit_arg;
          paginated_trades = py_slice found start_index end_index;
          reverse = (py_lower sort_arg = ''desc'')
      in bind_e (py_sort reverse paginated_trades)
           (\<lambda>sorted_page. Inr \<lparr>total_count = total_trades, page = page_arg, trades = sorted_page\<rparr>))"

text \<open>
  The whole handler. \<open>Inl msg\<close> is the response \<^verbatim>\<open>{"error": msg}\<close> of the
  \<^verbatim>\<open>except\<close> clause.
\<close>

definition get_trades :: "Trade list \<Rightarrow> list_args \<Rightarrow> string + page_result" where
  "get_trades trades_db a =
     bind_e (filtered_trades trades_db a)
       (\<lambda>found. paginate_sort found (arg_page a) (arg_limit a) (arg_sort a))"

subsection \<open>GET /trades/id/{trade_id}\<close>

text \<open>
  The scan returns at the first trade with the given id; \<open>Inl\<close> carries the text of
  the object \<^verbatim>\<open>{"error": "Trade not found"}\<close> returned after the loop.
\<close>

fun get_trade_by_id :: "Trade list \<Rightarrow> string \<Rightarrow> string + Trade" where
  "get_trade_by_id [] tid = Inl ''Trade not found''"
| "get_trade_by_id (t # ts) tid =
     (if trade_id t = Some tid then Inr t else get_trade_by_id ts tid)"

subsection \<open>GET /trades/search\<close>

text \<open>The condition of line 193, with \<^verbatim>\<open>counterparty is not None and ...\<close> first.\<close>

definition matches :: "string \<Rightarrow> Trade \<Rightarrow> bool" where
  "matches q t =
     ((case counterparty t of
         None \<Rightarrow> False
       | Some c \<Rightarrow> py_in (py_lower q) (py_lower c))
      \<or> py_in (py_lower q) (py_lower (instrument_id t))
      \<or> py_in (py_lower q) (py_lower (instrument_name t))
      \<or> py_in (py_lower q) (py_lower (trader t)))"

text \<open>Lines 191 to 202: the loop appends each matching trade.\<close>

definition searched_trades :: "Trade list \<Rightarrow> string \<Rightarrow> Trade list" where
  "searched_trades trades_db q =
     foldl (\<lambda>acc t. if matches q t then acc @ [t] else acc) [] trades_db"

definition search_trades :: "Trade list \<Rightarrow> string \<Rightarrow> int \<Rightarrow> int \<Rightarrow> string \<Rightarrow> string + page_result" where
  "search_trades trades_db q page_arg limit_arg sort_arg =
     paginate_sort (searched_trades trades_db q) page_arg limit_arg sort_arg"

section \<open>The dataset generator\<close>

definition assetClasses :: "string list" where
  "assetClasses = [''Equity'', ''Bond'', ''FX'']"

definition counterParties :: "string list" where
  "counterParties = [''ABC Bank'', ''XYZ Investment'', ''DEF Forex'', ''XYZ Bank'', ''PQR Investment'']"

definition instrumentIds :: "string list" where
  "instrumentIds = [''TSLA'', ''AAPL'', ''EURUSD'', ''AMZN'', ''GOOG'']"

definition instrumentNames :: "string list" where
  "instrumentNames = [''Tesla'', ''Apple'', ''Euro/USD'', ''Amazon'', ''Google'']"

definition buySellIndicators :: "string list" where
  "buySellIndicators = [''BUY'', ''SELL'']"

definition traders :: "string list" where
  "traders = [''John Doe'', ''Jane Smith'', ''Bob Johnson'', ''Alice Williams'', ''Robert Johnson'']"

text \<open>
  \<^verbatim>\<open>random.randint(lo, hi)\<close>. The generator of the process is a parameter: \<open>rng k\<close> is
  the raw number behind the \<open>k\<close>-th draw, reduced to the closed range \<open>lo..hi\<close>.
\<close>

definition randint :: "(nat \<Rightarrow> nat) \<Rightarrow> nat \<Rightarrow> int \<Rightarrow> int \<Rightarrow> int" where
  "randint rng k lo hi = lo + int (rng k mod nat (hi - lo + 1))"

text \<open>
  The body of the loop for index \<open>i\<close>. Python evaluates the keyword arguments from left
  to right, nine draws for each trade, so trade \<open>i\<close> takes the draws \<open>9 * i\<close> to
  \<open>9 * i + 8\<close>. The integer price becomes a float when the model validates it.
\<close>

definition make_trade :: "(nat \<Rightarrow> nat) \<Rightarrow> nat \<Rightarrow> Trade" where
  "make_trade rng i =
     \<lparr>asset_class =
        Some (assetClasses ! nat (randint rng (9 * i) 0 (int (length assetClasses) - 1))),
      counterparty =
        Some (counterParties ! nat (randint rng (9 * i + 1) 0 (int (length counterParties) - 1))),
      instrument_id =
        instrumentIds ! nat (randint rng (9 * i + 2) 0 (int (length instrumentIds) - 1)),
      instrument_name =
        instrumentNames ! nat (randint rng (9 * i + 3) 0 (int (length instrumentNames) - 1)),
      trade_date_time =
        mk_datetime 2022 (randint rng (9 * i + 4) 1 12) (randint rng (9 * i + 5) 1 28) 14 30,
      trade_details =
        \<lparr>buySellIndicator =
           buySellIndicators
             ! nat (randint rng (9 * i + 6) 0 (int (length buySellIndicators) - 1)),
         price = Fin (of_int (randint rng (9 * i + 7) 1 1000)),
         quantity = randint rng (9 * i + 8) 1 50\<rparr>,
      trade_id = Some (str_nat i),
      trader = traders ! (i mod length traders)\<rparr>"

text \<open>\<^verbatim>\<open>for i in range(100): ... trades_db.append(trade)\<close>\<close>

definition generate_db :: "(nat \<Rightarrow> nat) \<Rightarrow> Trade list" where
  "generate_db rng = foldl (\<lambda>trades_db i. trades_db @ [make_trade rng i]) [] [0..<100]"

section \<open>The endpoints on a store of list objects\<close>

text \<open>
  Python lists are objects: \<^verbatim>\<open>filtered_trades = trades_db\<close> binds a second name to the
  one stored list, and \<^verbatim>\<open>.sort()\<close> reorders a list in place. The state holds every
  list object at its address, and what was printed. A comprehension and a slice make a
  new list object; a Trade is never written to, so it is kept as a value.
\<close>

type_synonym addr = nat

record pystate =
  lists :: "Trade list list"
  stdout :: "string list"

definition new_list :: "Trade list \<Rightarrow> pystate \<Rightarrow> addr \<times> pystate" where
  "new_list xs s = (length (lists s), s\<lparr>lists := lists s @ [xs]\<rparr>)"

definition narrow_st ::
  "'p option \<Rightarrow> ('p \<Rightarrow> bool) \<Rightarrow> ('p \<Rightarrow> Trade \<Rightarrow> bool) \<Rightarrow> addr \<Rightarrow> pystate \<Rightarrow> addr \<times> pystate" where
  "narrow_st param truthy test ref s =
     (case param of
        None \<Rightarrow> (ref, s)
      | Some v \<Rightarrow> if truthy v then new_list (filter (test v) (lists s ! ref)) s else (ref, s))"

definition narrow_e_st ::
  "datetime option \<Rightarrow> (datetime \<Rightarrow> Trade \<Rightarrow> string + bool) \<Rightarrow> addr \<Rightarrow> pystate
     \<Rightarrow> (string + addr) \<times> pystate" where
  "narrow_e_st param test ref s =
     (case param of
        None \<Rightarrow> (Inr ref, s)
      | Some v \<Rightarrow>
          (case filter_e (test v) (lists s ! ref) of
             Inl e \<Rightarrow> (Inl e, s)
           | Inr ys \<Rightarrow> (let (r, s') = new_list ys s in (Inr r, s'))))"

text \<open>
  \<^verbatim>\<open>xs.sort(...)\<close> writes the sorted list back to the same address. When a comparison
  raises, the list is left as it was found here (Python leaves it in some order; it is
  the handler's own slice and nothing reads it again).
\<close>

definition sort_st :: "bool \<Rightarrow> addr \<Rightarrow> pystate \<Rightarrow> (string + unit) \<times> pystate" where
  "sort_st reverse ref s =
     (case py_sort reverse (lists s ! ref) of
        Inl e \<Rightarrow> (Inl e, s)
      | Inr ys \<Rightarrow> (Inr (), s\<lparr>lists := (lists s)[ref := ys]\<rparr>))"

definition paginate_sort_st ::
  "addr \<Rightarrow> int \<Rightarrow> int \<Rightarrow> string \<Rightarrow> pystate \<Rightarrow> (string + page_result) \<times> pystate" where
  "paginate_sort_st found page_arg limit_arg sort_arg s =
     (let total_trades = length (lists s ! found);
          start_index = (page_arg - 1) * limit_arg;
          end_index = start_index + limit_arg;
          (paginated_trades, s1) = new_list (py_slice (lists s ! found) start_index end_index) s;
          reverse = (py_lower sort_arg = ''desc'')
      in case sort_st reverse paginated_trades s1 of
           (Inl e, s2) \<Rightarrow> (Inl e, s2)
         | (Inr u, s2) \<Rightarrow>
             (Inr \<lparr>total_count = total_trades, page = page_arg,
                   trades = lists s2 ! paginated_trades\<rparr>, s2))"

text \<open>The list handler; \<open>trades_db\<close> is the address of the module-level list.\<close>

definition get_trades_st :: "addr \<Rightarrow> list_args \<Rightarrow> pystate \<Rightarrow> (string + page_result) \<times> pystate" where
  "get_trades_st trades_db a s0 =
     (let (f1, s1) = narrow_st (arg_asset_class a) str_truthy
                       (\<lambda>c t. asset_class t = Some c) trades_db s0
      in case narrow_e_st (arg_end a) (\<lambda>e t. dt_le (trade_date_time t) e) f1 s1 of
           (Inl e, s2) \<Rightarrow> (Inl e, s2)
         | (Inr f2, s2) \<Rightarrow>
             (let (f3, s3) = narrow_st (arg_max_price a) float_truthy
                               (\<lambda>m t. float_le (price (trade_details t)) m) f2 s2;
                  (f4, s4) = narrow_st (arg_min_price a) float_truthy
                               (\<lambda>m t. float_ge (price (trade_details t)) m) f3 s3
              in case narrow_e_st (arg_start a) (\<lambda>s t. dt_ge (trade_date_time t) s) f4 s4 of
                   (Inl e, s5) \<Rightarrow> (Inl e, s5)
                 | (Inr f5, s5) \<Rightarrow>
                     (let (f6, s6) = narrow_st (arg_trade_type a) str_truthy
                                       (\<lambda>k t. buySellIndicator (trade_details t) = k) f5 s5
                      in paginate_sort_st f6 (arg_page a) (arg_limit a) (arg_sort a) s6)))"

text \<open>The lookup prints a line and reads the stored list.\<close>

definition get_trade_by_id_st :: "addr \<Rightarrow> string \<Rightarrow> pystate \<Rightarrow> (string + Trade) \<times> pystate" where
  "get_trade_by_id_st trades_db tid s =
     (let s1 = s\<lparr>stdout := stdout s @ [''Here'']\<rparr>
      in (get_trade_by_id (lists s1 ! trades_db) tid, s1))"

text \<open>\<^verbatim>\<open>searched_trades.append(trade)\<close>: the list at \<open>ref\<close> grows in place.\<close>

definition append_st :: "addr \<Rightarrow> Trade \<Rightarrow> pystate \<Rightarrow> pystate" where
  "append_st ref t s = s\<lparr>lists := (lists s)[ref := lists s ! ref @ [t]]\<rparr>"

definition search_trades_st ::
  "addr \<Rightarrow> string \<Rightarrow> int \<Rightarrow> int \<Rightarrow> string \<Rightarrow> pystate \<Rightarrow> (string + page_result) \<times> pystate" where
  "search_trades_st trades_db q page_arg limit_arg sort_arg s0 =
     (let (searched, s1) = new_list [] s0;
          s2 = foldl (\<lambda>s t. if matches q t then append_st searched t s else s) s1
                 (lists s1 ! trades_db)
      in paginate_sort_st searched page_arg limit_arg sort_arg s2)"

section \<open>Notions the stated properties use\<close>

text \<open>
  A record satisfies the predicates the list endpoint applies: a parameter takes part
  when it is present and true as \<^verbatim>\<open>if param:\<close> reads it.
\<close>

definition satisfies_applied :: "list_args \<Rightarrow> Trade \<Rightarrow> bool" where
  "satisfies_applied a t =
     ((case arg_asset_class a of
         None \<Rightarrow> True
       | Some c \<Rightarrow> if str_truthy c then asset_class t = Some c else True)
      \<and> (case arg_end a of
           None \<Rightarrow> True
         | Some e \<Rightarrow> dt_le (trade_date_time t) e = Inr True)
      \<and> (case arg_max_price a of
           None \<Rightarrow> True
         | Some m \<Rightarrow> if float_truthy m then float_le (price (trade_details t)) m else True)
      \<and> (case arg_min_price a of
           None \<Rightarrow> True
         | Some m \<Rightarrow> if float_truthy m then float_ge (price (trade_details t)) m else True)
      \<and> (case arg_start a of
           None \<Rightarrow> True
         | Some s \<Rightarrow> dt_ge (trade_date_time t) s = Inr True)
      \<and> (case arg_trade_type a of
           None \<Rightarrow> True
         | Some k \<Rightarrow> if str_truthy k then buySellIndicator (trade_details t) = k else True))"

text \<open>
  A record satisfies every supplied predicate, where supplied means that the request
  carries the parameter, whatever its value.
\<close>

definition satisfies_supplied :: "list_args \<Rightarrow> Trade \<Rightarrow> bool" where
  "satisfies_supplied a t =
     ((case arg_asset_class a of None \<Rightarrow> True | Some c \<Rightarrow> asset_class t = Some c)
      \<and> (case arg_end a of None \<Rightarrow> True | Some e \<Rightarrow> dt_le (trade_date_time t) e = Inr True)
      \<and> (case arg_max_price a of None \<Rightarrow> True | Some m \<Rightarrow> float_le (price (trade_details t)) m)
      \<and> (case arg_min_price a of None \<Rightarrow> True | Some m \<Rightarrow> float_ge (price (trade_details t)) m)
      \<and> (case arg_start a of None \<Rightarrow> True | Some s \<Rightarrow> dt_ge (trade_date_time t) s = Inr True)
      \<and> (case arg_trade_type a of
           None \<Rightarrow> True
         | Some k \<Rightarrow> buySellIndicator (trade_details t) = k))"





text \<open>The dates of a page never go down, or never go up, from one trade to the next.\<close>

definition ascending_dates :: "Trade list \<Rightarrow> bool" where
  "ascending_dates ts =
     successively (\<lambda>x y. dt_le (trade_date_time x) (trade_date_time y) = Inr True) ts"

definition descending_dates :: "Trade list \<Rightarrow> bool" where
  "descending_dates ts =
     successively (\<lambda>x y. dt_ge (trade_date_time x) (trade_date_time y) = Inr True) ts"

text \<open>The value of a decimal numeral, to read back what \<open>str_nat\<close> wrote.\<close>

definition decimal_value :: "string \<Rightarrow> nat" where
  "decimal_value s = foldl (\<lambda>acc c. 10 * acc + (of_char c - 48)) 0 s"

subsection \<open>Sample data\<close>

definition sample_trade :: "string \<Rightarrow> int \<Rightarrow> rat \<Rightarrow> Trade" where
  "sample_trade tid day amount =
     \<lparr>asset_class = Some ''Equity'', counterparty = Some ''ABC Bank'',
      instrument_id = ''TSLA'', instrument_name = ''Tesla'',
      trade_date_time = mk_datetime 2022 1 day 14 30,
      trade_details = \<lparr>buySellIndicator = ''BUY'', price = Fin amount, quantity = 10\<rparr>,
      trade_id = Some tid, trader = ''John Doe''\<rparr>"

definition sample_db :: "Trade list" where
  "sample_db = [sample_trade ''0'' 5 5, sample_trade ''1'' 9 700, sample_trade ''2'' 2 40]"

text \<open>The defaults of the query parameters: page 1, limit 4, sort "desc".\<close>

definition default_args :: list_args where
  "default_args =
     \<lparr>arg_asset_class = None, arg_end = None, arg_max_price = None, arg_min_price = None,
      arg_start = None, arg_trade_type = None, arg_page = 1, arg_limit = 4, arg_sort = ''desc''\<rparr>"



definition sample_state :: pystate where
  "sample_state = \<lparr>lists = [sample_db], stdout = []\<rparr>"

definition zero_max_args :: list_args where
  "zero_max_args = default_args\<lparr>arg_max_price := Some (Fin 0)\<rparr>"

definition bounded_args :: list_args where
  "bounded_args = default_args\<lparr>arg_max_price := Some (Fin 40), arg_min_price := Some (Fin 5)\<rparr>"

definition empty_range_args :: list_args where
  "empty_range_args = default_args\<lparr>arg_max_price := Some (Fin 0), arg_min_price := Some (Fin 1)\<rparr>"

definition second_page_args :: list_args where
  "second_page_args = default_args\<lparr>arg_page := 2, arg_limit := 2, arg_sort := ''asc''\<rparr>"

definition four_trades :: "Trade list" where
  "four_trades = [sample_trade ''0'' 5 5, sample_trade ''1'' 9 700,
                  sample_trade ''2'' 7 40, sample_trade ''3'' 2 8]"

section \<open>Properties\<close>

subsection \<open>Raising filters\<close>

lemma bind_e_Inr_iff: "bind_e m f = Inr y \<longleftrightarrow> (\<exists>x. m = Inr x \<and> f x = Inr y)"
  by (cases m) auto

lemma filter_e_Inr: "filter_e P xs = Inr ys \<Longrightarrow> ys = filter (\<lambda>x. P x = Inr True) xs"
proof (induction xs arbitrary: ys)
  case Nil then show ?case by simp
next
  case (Cons x xs)
  then obtain b zs where b: "P x = Inr b" and zs: "filter_e P xs = Inr zs"
    by (cases "P x"; cases "filter_e P xs") auto
  with Cons show ?case by auto
qed

lemma filter_e_total:
  "\<forall>x\<in>set xs. \<exists>b. P x = Inr b \<Longrightarrow> filter_e P xs = Inr (filter (\<lambda>x. P x = Inr True) xs)"
  by (induction xs) auto

lemma narrow_filter:
  "narrow p tr test xs
     = filter (\<lambda>t. case p of None \<Rightarrow> True | Some v \<Rightarrow> if tr v then test v t else True) xs"
  by (cases p) (auto simp: narrow_def)

lemma narrow_e_Inr:
  "narrow_e p test xs = Inr ys \<Longrightarrow>
     ys = filter (\<lambda>t. case p of None \<Rightarrow> True | Some v \<Rightarrow> test v t = Inr True) xs"
  by (cases p) (auto simp: narrow_e_def dest: filter_e_Inr)

lemma filtered_trades_Inr:
  assumes "filtered_trades db a = Inr found"
  shows "found = filter (satisfies_applied a) db"
proof -
  define f1 where "f1 = narrow (arg_asset_class a) str_truthy (\<lambda>c t. asset_class t = Some c) db"
  from assms obtain f2 where
    e2: "narrow_e (arg_end a) (\<lambda>e t. dt_le (trade_date_time t) e) f1 = Inr f2"
    unfolding filtered_trades_def Let_def bind_e_Inr_iff f1_def by blast
  define f3 where "f3 = narrow (arg_max_price a) float_truthy
                      (\<lambda>m t. float_le (price (trade_details t)) m) f2"
  define f4 where "f4 = narrow (arg_min_price a) float_truthy
                      (\<lambda>m t. float_ge (price (trade_details t)) m) f3"
  from assms e2 obtain f5 where
    e5: "narrow_e (arg_start a) (\<lambda>s t. dt_ge (trade_date_time t) s) f4 = Inr f5"
    and fd: "found = narrow (arg_trade_type a) str_truthy
                       (\<lambda>k t. buySellIndicator (trade_details t) = k) f5"
    unfolding filtered_trades_def Let_def bind_e_Inr_iff f1_def f3_def f4_def by auto
  show ?thesis
    unfolding fd narrow_e_Inr[OF e5] f4_def f3_def narrow_e_Inr[OF e2] f1_def narrow_filter
    by (simp add: satisfies_applied_def conj_ac cong: filter_cong)
qed

subsection \<open>Sorting and slicing\<close>

lemma dt_le_same_kind:
  "is_naive x = is_naive y \<Longrightarrow> dt_le x y = Inr (dt_ord x \<le> dt_ord y)"
  by (cases x; cases y) auto

lemma dt_ge_same_kind:
  "is_naive x = is_naive y \<Longrightarrow> dt_ge x y = Inr (dt_ord y \<le> dt_ord x)"
  by (cases x; cases y) auto

lemma sortable_same_kind:
  "sortable ts \<Longrightarrow> x \<in> set ts \<Longrightarrow> y \<in> set ts \<Longrightarrow>
     is_naive (trade_date_time x) = is_naive (trade_date_time y)"
  by (auto simp: sortable_def list_all_iff)

lemma py_sort_Inr_iff:
  "py_sort rv ts = Inr ys \<longleftrightarrow>
     sortable ts \<and> ys = (if rv then rev (sort_key date_key (rev ts)) else sort_key date_key ts)"
  by (auto simp: py_sort_def)

lemma py_sort_set: "py_sort rv ts = Inr ys \<Longrightarrow> set ys = set ts"
  by (auto simp: py_sort_Inr_iff split: if_splits)

lemma py_sort_mset: "py_sort rv ts = Inr ys \<Longrightarrow> mset ys = mset ts"
  by (auto simp: py_sort_Inr_iff split: if_splits)

lemma py_sort_length: "py_sort rv ts = Inr ys \<Longrightarrow> length ys = length ts"
  by (auto simp: py_sort_Inr_iff split: if_splits)

lemma py_sort_ascending:
  assumes "py_sort False ts = Inr ys" and "Suc i < length ys"
  shows "dt_le (trade_date_time (ys ! i)) (trade_date_time (ys ! Suc i)) = Inr True"
proof -
  from assms(1) have s: "sortable ts" and ys: "ys = sort_key date_key ts"
    by (simp_all add: py_sort_Inr_iff)
  have "sorted (map date_key ys)" unfolding ys by (rule sorted_sort_key)
  with assms(2) have le: "date_key (ys ! i) \<le> date_key (ys ! Suc i)"
    by (simp add: sorted_iff_nth_Suc)
  have "ys ! i \<in> set ts" "ys ! Suc i \<in> set ts"
    using assms(2) py_sort_set[OF assms(1)] nth_mem[of i ys] nth_mem[of "Suc i" ys] by auto
  from sortable_same_kind[OF s this] le show ?thesis
    by (simp add: dt_le_same_kind date_key_def)
qed

lemma py_sort_descending:
  assumes "py_sort True ts = Inr ys" and "Suc i < length ys"
  shows "dt_ge (trade_date_time (ys ! i)) (trade_date_time (ys ! Suc i)) = Inr True"
proof -
  from assms(1) have s: "sortable ts" and ys: "ys = rev (sort_key date_key (rev ts))"
    by (simp_all add: py_sort_Inr_iff)
  have "sorted (rev (map date_key ys))" unfolding ys by (simp add: rev_map sorted_sort_key)
  with assms(2) have le: "date_key (ys ! Suc i) \<le> date_key (ys ! i)"
    by (simp add: sorted_rev_iff_nth_Suc)
  have "ys ! i \<in> set ts" "ys ! Suc i \<in> set ts"
    using assms(2) py_sort_set[OF assms(1)] nth_mem[of i ys] nth_mem[of "Suc i" ys] by auto
  from sortable_same_kind[OF s this] le show ?thesis
    by (simp add: dt_ge_same_kind date_key_def)
qed

lemma py_slice_take_drop:
  assumes "0 \<le> s" and "s \<le> e"
  shows "py_slice xs s e = take (nat (e - s)) (drop (nat s) xs)"
  using assms by (auto simp: py_slice_def slice_index_def Let_def nat_diff_distrib)

lemma py_slice_length_le:
  assumes "0 \<le> l"
  shows "int (length (py_slice xs s (s + l))) \<le> l"
  using assms by (auto simp: py_slice_def slice_index_def Let_def)

lemma py_slice_beyond:
  assumes "int (length xs) \<le> s" and "s \<le> e"
  shows "py_slice xs s e = []"
  using assms by (auto simp: py_slice_def slice_index_def Let_def)

lemma paginate_sort_Inr:
  assumes "paginate_sort found pg lmt srt = Inr r"
  shows "total_count r = length found" and "page r = pg"
    and "py_sort (py_lower srt = ''desc'') (py_slice found ((pg - 1) * lmt) ((pg - 1) * lmt + lmt))
           = Inr (trades r)"
  using assms by (auto simp: paginate_sort_def Let_def bind_e_Inr_iff)

lemma get_trades_Inr:
  assumes "get_trades db a = Inr r"
  shows "filtered_trades db a = Inr (filter (satisfies_applied a) db)"
    and "paginate_sort (filter (satisfies_applied a) db) (arg_page a) (arg_limit a) (arg_sort a) = Inr r"
  using assms filtered_trades_Inr[of db a] by (auto simp: get_trades_def bind_e_Inr_iff)

lemma searched_trades_filter: "searched_trades db q = filter (matches q) db"
proof -
  have "foldl (\<lambda>acc t. if matches q t then acc @ [t] else acc) acc db = acc @ filter (matches q) db" for acc
    by (induction db arbitrary: acc) auto
  then show ?thesis by (simp add: searched_trades_def)
qed

subsection \<open>Sort direction of the returned page\<close>

lemma ascending_dates_nth:
  "ascending_dates ts \<longleftrightarrow>
     (\<forall>i. Suc i < length ts \<longrightarrow>
        dt_le (trade_date_time (ts ! i)) (trade_date_time (ts ! Suc i)) = Inr True)"
  by (simp add: ascending_dates_def successively_conv_nth)

lemma descending_dates_nth:
  "descending_dates ts \<longleftrightarrow>
     (\<forall>i. Suc i < length ts \<longrightarrow>
        dt_ge (trade_date_time (ts ! i)) (trade_date_time (ts ! Suc i)) = Inr True)"
  by (simp add: descending_dates_def successively_conv_nth)

lemma paginate_sort_ordered:
  assumes "paginate_sort found pg lmt srt = Inr r"
  shows "if py_lower srt = ''desc'' then descending_dates (trades r) else ascending_dates (trades r)"
proof (cases "py_lower srt = ''desc''")
  case True
  with paginate_sort_Inr(3)[OF assms] show ?thesis
    by (auto simp: descending_dates_nth intro: py_sort_descending)
next
  case False
  with paginate_sort_Inr(3)[OF assms] show ?thesis
    by (auto simp: ascending_dates_nth intro: py_sort_ascending)
qed

text \<open>
  C1 (as amended). The page returned by the list endpoint and by the search endpoint is
  ordered by tradeDateTime: when the sort parameter, lower-cased, is "desc", every
  adjacent pair satisfies date[i] >= date[i+1]; for every other value, "asc" and the
  invalid ones alike, every adjacent pair satisfies date[i] <= date[i+1].
\<close>

theorem page_ordered_by_sort_parameter:
  "(get_trades db a = Inr r \<longrightarrow>
      (if py_lower (arg_sort a) = ''desc''
       then descending_dates (trades r) else ascending_dates (trades r)))
   \<and> (search_trades db q pg lmt srt = Inr r' \<longrightarrow>
      (if py_lower srt = ''desc''
       then descending_dates (trades r') else ascending_dates (trades r')))"
  using paginate_sort_ordered[OF get_trades_Inr(2), of db a r]
    paginate_sort_ordered[of "searched_trades db q" pg lmt srt r']
  by (simp add: search_trades_def)

theorem page_ordered_by_sort_parameter_witness:
  "get_trades sample_db default_args =
     Inr \<lparr>total_count = 3, page = 1,
          trades = [sample_trade ''1'' 9 700, sample_trade ''0'' 5 5, sample_trade ''2'' 2 40]\<rparr>
   \<and> py_lower (arg_sort default_args) = ''desc''
   \<and> descending_dates [sample_trade ''1'' 9 700, sample_trade ''0'' 5 5, sample_trade ''2'' 2 40]
   \<and> search_trades sample_db ''tes'' 1 2 ''asc'' =
     Inr \<lparr>total_count = 3, page = 1, trades = [sample_trade ''0'' 5 5, sample_trade ''1'' 9 700]\<rparr>
   \<and> py_lower ''asc'' \<noteq> ''desc''
   \<and> ascending_dates [sample_trade ''0'' 5 5, sample_trade ''1'' 9 700]"
proof -
  have g: "get_trades sample_db default_args =
     Inr \<lparr>total_count = 3, page = 1,
          trades = [sample_trade ''1'' 9 700, sample_trade ''0'' 5 5, sample_trade ''2'' 2 40]\<rparr>"
    by code_simp
  have s: "search_trades sample_db ''tes'' 1 2 ''asc'' =
     Inr \<lparr>total_count = 3, page = 1, trades = [sample_trade ''0'' 5 5, sample_trade ''1'' 9 700]\<rparr>"
    by code_simp
  have l: "py_lower (arg_sort default_args) = ''desc''" "py_lower ''asc'' \<noteq> ''desc''"
    by code_simp+
  from page_ordered_by_sort_parameter[where db = sample_db and a = default_args
      and q = "''tes''" and pg = 1 and lmt = 2 and srt = "''asc''"
      and r = "\<lparr>total_count = 3, page = 1,
          trades = [sample_trade ''1'' 9 700, sample_trade ''0'' 5 5, sample_trade ''2'' 2 40]\<rparr>"
      and r' = "\<lparr>total_count = 3, page = 1,
          trades = [sample_trade ''0'' 5 5, sample_trade ''1'' 9 700]\<rparr>"] g s l
  show ?thesis by simp
qed

text \<open>
  The sort value "newest" is neither "asc" nor "desc"; the page comes back in ascending
  order, its first date below its second.
\<close>

theorem invalid_sort_value_counterexample:
  "get_trades sample_db (default_args\<lparr>arg_sort := ''newest''\<rparr>) =
     Inr \<lparr>total_count = 3, page = 1,
          trades = [sample_trade ''2'' 2 40, sample_trade ''0'' 5 5, sample_trade ''1'' 9 700]\<rparr>
   \<and> py_lower ''newest'' \<noteq> ''asc''
   \<and> dt_ge (trade_date_time ([sample_trade ''2'' 2 40, sample_trade ''0'' 5 5, sample_trade ''1'' 9 700] ! 0))
        (trade_date_time ([sample_trade ''2'' 2 40, sample_trade ''0'' 5 5, sample_trade ''1'' 9 700] ! 1))
      = Inr False"
  by code_simp

subsection \<open>Page size and total count of the list endpoint\<close>

lemma satisfies_applied_page_limit:
  "satisfies_applied (a\<lparr>arg_page := pg, arg_limit := lm\<rparr>) = satisfies_applied a"
  by (rule ext) (simp add: satisfies_applied_def)

lemma py_sort_Nil: "py_sort rv [] = Inr []"
  by (simp add: py_sort_def sortable_def)

text \<open>A page beyond the filtered results is always answered, with no trades.\<close>

lemma get_trades_beyond_last_page:
  assumes "filtered_trades db a = Inr found"
    and "1 \<le> arg_page a" and "1 \<le> arg_limit a"
    and "int (length found) \<le> (arg_page a - 1) * arg_limit a"
  shows "get_trades db a = Inr \<lparr>total_count = length found, page = arg_page a, trades = []\<rparr>"
proof -
  have "py_slice found ((arg_page a - 1) * arg_limit a) ((arg_page a - 1) * arg_limit a + arg_limit a) = []"
    using assms(3,4) by (intro py_slice_beyond) auto
  then show ?thesis
    using assms(1) by (simp add: get_trades_def paginate_sort_def Let_def py_sort_Nil)
qed

text \<open>
  C2 (as amended). For every request to the list endpoint with page >= 1 and limit >= 1
  that returns a page, the number of trades returned is at most limit, and total_count
  equals the number of records satisfying every filter predicate that is applied (a
  parameter that is present and true: a non-empty string, a non-zero number, any
  datetime), independent of page and limit; a page beyond the available results has an
  empty trades sequence while total_count is still the full filtered count.
\<close>

theorem list_page_size_and_total_count:
  assumes "1 \<le> arg_page a" and "1 \<le> arg_limit a" and "get_trades db a = Inr r"
  shows "int (length (trades r)) \<le> arg_limit a
       \<and> total_count r = length (filter (satisfies_applied a) db)
       \<and> (\<forall>pg lm r'. get_trades db (a\<lparr>arg_page := pg, arg_limit := lm\<rparr>) = Inr r'
              \<longrightarrow> total_count r' = total_count r)
       \<and> (int (total_count r) \<le> (arg_page a - 1) * arg_limit a \<longrightarrow> trades r = [])"
proof -
  let ?found = "filter (satisfies_applied a) db"
  let ?s = "(arg_page a - 1) * arg_limit a"
  note ps = paginate_sort_Inr[OF get_trades_Inr(2)[OF assms(3)]]
  have len: "length (trades r) = length (py_slice ?found ?s (?s + arg_limit a))"
    using py_sort_length[OF ps(3)] .
  have 1: "int (length (trades r)) \<le> arg_limit a"
    unfolding len using assms(2) by (intro py_slice_length_le) simp
  have 2: "total_count r = length ?found" by (rule ps(1))
  have 3: "total_count r' = total_count r"
    if "get_trades db (a\<lparr>arg_page := pg, arg_limit := lm\<rparr>) = Inr r'" for pg lm r'
    using paginate_sort_Inr(1)[OF get_trades_Inr(2)[OF that]] 2
    by (simp add: satisfies_applied_page_limit)
  have 4: "trades r = []" if "int (total_count r) \<le> ?s"
  proof -
    have "0 \<le> arg_limit a" using assms(2) by simp
    then have "py_slice ?found ?s (?s + arg_limit a) = []"
      using that 2 by (intro py_slice_beyond) auto
    with len show ?thesis by simp
  qed
  from 1 2 3 4 show ?thesis by blast
qed

theorem list_page_size_and_total_count_witness:
  "(1::int) \<le> arg_page (default_args\<lparr>arg_page := 1000\<rparr>)
   \<and> (1::int) \<le> arg_limit (default_args\<lparr>arg_page := 1000\<rparr>)
   \<and> get_trades sample_db (default_args\<lparr>arg_page := 1000\<rparr>)
       = Inr \<lparr>total_count = 3, page = 1000, trades = []\<rparr>
   \<and> length (filter (satisfies_applied (default_args\<lparr>arg_page := 1000\<rparr>)) sample_db) = 3
   \<and> int (total_count \<lparr>total_count = 3, page = 1000, trades = []\<rparr>)
       \<le> (arg_page (default_args\<lparr>arg_page := 1000\<rparr>) - 1) * arg_limit (default_args\<lparr>arg_page := 1000\<rparr>)"
proof -
  have h1: "(1::int) \<le> arg_page (default_args\<lparr>arg_page := 1000\<rparr>)"
    and h2: "(1::int) \<le> arg_limit (default_args\<lparr>arg_page := 1000\<rparr>)"
    by (simp_all add: default_args_def)
  have h3: "get_trades sample_db (default_args\<lparr>arg_page := 1000\<rparr>)
       = Inr \<lparr>total_count = 3, page = 1000, trades = []\<rparr>"
    by code_simp
  from list_page_size_and_total_count[OF h1 h2 h3] h1 h2 h3 show ?thesis
    by (simp add: default_args_def)
qed

theorem zero_max_price_total_count_counterexample:
  "1 \<le> arg_page zero_max_args \<and> 1 \<le> arg_limit zero_max_args
   \<and> arg_max_price zero_max_args = Some (Fin 0)
   \<and> get_trades sample_db zero_max_args =
       Inr \<lparr>total_count = 3, page = 1,
            trades = [sample_trade ''1'' 9 700, sample_trade ''0'' 5 5, sample_trade ''2'' 2 40]\<rparr>
   \<and> length (filter (satisfies_supplied zero_max_args) sample_db) = 0"
  by code_simp

subsection \<open>The page is a slice of the filtered collection\<close>

text \<open>
  C3. For every request to the list endpoint that returns a page, the trades of the
  page are those of the slice of the filtered collection (in the insertion order of
  the collection) from index (page-1)*limit to (page-1)*limit + limit, and the page is
  that slice sorted by tradeDateTime: the sort runs on the slice, after pagination.
  The slice is Python's; for page >= 1 and limit >= 0 it drops (page-1)*limit records
  and takes limit.
\<close>

theorem page_is_sorted_slice_of_filtered:
  assumes "get_trades db a = Inr r"
  shows "filtered_trades db a = Inr (filter (satisfies_applied a) db)
       \<and> mset (trades r)
           = mset (py_slice (filter (satisfies_applied a) db)
                     ((arg_page a - 1) * arg_limit a) ((arg_page a - 1) * arg_limit a + arg_limit a))
       \<and> py_sort (py_lower (arg_sort a) = ''desc'')
           (py_slice (filter (satisfies_applied a) db)
              ((arg_page a - 1) * arg_limit a) ((arg_page a - 1) * arg_limit a + arg_limit a))
           = Inr (trades r)
       \<and> (1 \<le> arg_page a \<and> 0 \<le> arg_limit a \<longrightarrow>
            py_slice (filter (satisfies_applied a) db)
              ((arg_page a - 1) * arg_limit a) ((arg_page a - 1) * arg_limit a + arg_limit a)
            = take (nat (arg_limit a))
                (drop (nat ((arg_page a - 1) * arg_limit a)) (filter (satisfies_applied a) db)))"
proof -
  note ps = paginate_sort_Inr[OF get_trades_Inr(2)[OF assms]]
  have "py_slice xs ((arg_page a - 1) * arg_limit a) ((arg_page a - 1) * arg_limit a + arg_limit a)
          = take (nat (arg_limit a)) (drop (nat ((arg_page a - 1) * arg_limit a)) xs)"
    if "1 \<le> arg_page a" "0 \<le> arg_limit a" for xs :: "Trade list"
    using that py_slice_take_drop[of "(arg_page a - 1) * arg_limit a"
        "(arg_page a - 1) * arg_limit a + arg_limit a" xs] by simp
  with get_trades_Inr(1)[OF assms] ps(3) py_sort_mset[OF ps(3)] show ?thesis by simp
qed

theorem page_is_sorted_slice_of_filtered_witness:
  "get_trades four_trades second_page_args
     = Inr \<lparr>total_count = 4, page = 2, trades = [sample_trade ''3'' 2 8, sample_trade ''2'' 7 40]\<rparr>
   \<and> filter (satisfies_applied second_page_args) four_trades = four_trades
   \<and> 1 \<le> arg_page second_page_args \<and> 0 \<le> arg_limit second_page_args
   \<and> take (nat (arg_limit second_page_args))
       (drop (nat ((arg_page second_page_args - 1) * arg_limit second_page_args)) four_trades)
     = [sample_trade ''2'' 7 40, sample_trade ''3'' 2 8]
   \<and> mset [sample_trade ''3'' 2 8, sample_trade ''2'' 7 40]
     = mset [sample_trade ''2'' 7 40, sample_trade ''3'' 2 8]"
proof -
  have g: "get_trades four_trades second_page_args
     = Inr \<lparr>total_count = 4, page = 2, trades = [sample_trade ''3'' 2 8, sample_trade ''2'' 7 40]\<rparr>"
    by code_simp
  have f: "filter (satisfies_applied second_page_args) four_trades = four_trades"
    by code_simp
  have t: "take (nat (arg_limit second_page_args))
       (drop (nat ((arg_page second_page_args - 1) * arg_limit second_page_args)) four_trades)
     = [sample_trade ''2'' 7 40, sample_trade ''3'' 2 8]"
    by (simp add: second_page_args_def default_args_def four_trades_def)
  have p: "1 \<le> arg_page second_page_args" "0 \<le> arg_limit second_page_args"
    by (simp_all add: second_page_args_def default_args_def)
  from page_is_sorted_slice_of_filtered[OF g] g f t p show ?thesis by simp
qed

text \<open>On the same data, sorting before slicing would give another second page.\<close>

lemma sort_runs_after_pagination:
  "bind_e (py_sort False four_trades) (\<lambda>ts. Inr (py_slice ts 2 4))
     = Inr [sample_trade ''2'' 7 40, sample_trade ''1'' 9 700]"
  by code_simp

subsection \<open>Price bounds\<close>

lemma satisfies_applied_price_bounds:
  assumes "arg_min_price a = Some lo" and "arg_max_price a = Some hi"
    and "float_truthy lo" and "float_truthy hi"
  shows "satisfies_applied a t \<longleftrightarrow>
           float_le lo (price (trade_details t)) \<and> float_le (price (trade_details t)) hi
           \<and> satisfies_applied (a\<lparr>arg_max_price := None, arg_min_price := None\<rparr>) t"
  using assms by (auto simp: satisfies_applied_def float_ge_def)

text \<open>
  C4 (as amended). For every request to the list endpoint that supplies min_price and
  max_price, both different from zero, and returns a page, a record is counted in
  total_count if and only if its price lies between the two bounds, both inclusive,
  and it satisfies every other applied predicate.
\<close>

theorem price_bounds_inclusive_and_conjunctive:
  assumes "arg_min_price a = Some lo" and "arg_max_price a = Some hi"
    and "float_truthy lo" and "float_truthy hi"
    and "get_trades db a = Inr r"
  shows "total_count r
           = length (filter (\<lambda>t. float_le lo (price (trade_details t))
                                \<and> float_le (price (trade_details t)) hi
                                \<and> satisfies_applied (a\<lparr>arg_max_price := None, arg_min_price := None\<rparr>) t) db)"
proof -
  have "total_count r = length (filter (satisfies_applied a) db)"
    using paginate_sort_Inr(1)[OF get_trades_Inr(2)[OF assms(5)]] .
  also have "filter (satisfies_applied a) db
      = filter (\<lambda>t. float_le lo (price (trade_details t))
                                \<and> float_le (price (trade_details t)) hi
                                \<and> satisfies_applied (a\<lparr>arg_max_price := None, arg_min_price := None\<rparr>) t) db"
    by (rule filter_cong[OF refl]) (rule satisfies_applied_price_bounds[OF assms(1-4)])
  finally show ?thesis .
qed

theorem price_bounds_inclusive_and_conjunctive_witness:
  "arg_min_price bounded_args = Some (Fin 5) \<and> arg_max_price bounded_args = Some (Fin 40)
   \<and> float_truthy (Fin 5) \<and> float_truthy (Fin 40)
   \<and> get_trades sample_db bounded_args
       = Inr \<lparr>total_count = 2, page = 1, trades = [sample_trade ''0'' 5 5, sample_trade ''2'' 2 40]\<rparr>
   \<and> length (filter (\<lambda>t. float_le (Fin 5) (price (trade_details t))
                        \<and> float_le (price (trade_details t)) (Fin 40)
                        \<and> satisfies_applied (bounded_args\<lparr>arg_max_price := None, arg_min_price := None\<rparr>) t)
               sample_db) = 2"
proof -
  have h: "arg_min_price bounded_args = Some (Fin 5)" "arg_max_price bounded_args = Some (Fin 40)"
    "float_truthy (Fin 5)" "float_truthy (Fin 40)"
    by (simp_all add: bounded_args_def default_args_def float_truthy_def)
  have g: "get_trades sample_db bounded_args
       = Inr \<lparr>total_count = 2, page = 1, trades = [sample_trade ''0'' 5 5, sample_trade ''2'' 2 40]\<rparr>"
    by code_simp
  from price_bounds_inclusive_and_conjunctive[OF h g] h g show ?thesis by simp
qed

theorem zero_max_price_bound_counterexample:
  "arg_min_price empty_range_args = Some (Fin 1) \<and> arg_max_price empty_range_args = Some (Fin 0)
   \<and> get_trades sample_db empty_range_args
       = Inr \<lparr>total_count = 3, page = 1,
              trades = [sample_trade ''1'' 9 700, sample_trade ''0'' 5 5, sample_trade ''2'' 2 40]\<rparr>
   \<and> filter (\<lambda>t. float_ge (price (trade_details t)) (Fin 1)
                  \<and> float_le (price (trade_details t)) (Fin 0)) sample_db = []
   \<and> filter (satisfies_supplied empty_range_args) sample_db = []"
  by code_simp

subsection \<open>Parameters that are present and false\<close>

text \<open>
  C10. At the list endpoint max_price=0, min_price=0 and an empty asset_class behave
  exactly as the absent parameter: the filter is not applied, whatever the collection
  and the other parameters.
\<close>

theorem zero_or_empty_parameter_is_ignored:
  "get_trades db (a\<lparr>arg_max_price := Some (Fin 0)\<rparr>) = get_trades db (a\<lparr>arg_max_price := None\<rparr>)
   \<and> get_trades db (a\<lparr>arg_min_price := Some (Fin 0)\<rparr>) = get_trades db (a\<lparr>arg_min_price := None\<rparr>)
   \<and> get_trades db (a\<lparr>arg_asset_class := Some []\<rparr>) = get_trades db (a\<lparr>arg_asset_class := None\<rparr>)"
  by (simp add: get_trades_def filtered_trades_def narrow_def float_truthy_def str_truthy_def)

theorem zero_or_empty_parameter_is_ignored_witness:
  "get_trades sample_db (default_args\<lparr>arg_max_price := Some (Fin 0)\<rparr>)
     = Inr \<lparr>total_count = 3, page = 1,
            trades = [sample_trade ''1'' 9 700, sample_trade ''0'' 5 5, sample_trade ''2'' 2 40]\<rparr>
   \<and> get_trades sample_db (default_args\<lparr>arg_min_price := Some (Fin 0)\<rparr>)
     = Inr \<lparr>total_count = 3, page = 1,
            trades = [sample_trade ''1'' 9 700, sample_trade ''0'' 5 5, sample_trade ''2'' 2 40]\<rparr>
   \<and> get_trades sample_db (default_args\<lparr>arg_asset_class := Some []\<rparr>)
     = Inr \<lparr>total_count = 3, page = 1,
            trades = [sample_trade ''1'' 9 700, sample_trade ''0'' 5 5, sample_trade ''2'' 2 40]\<rparr>"
proof -
  have g: "get_trades sample_db (default_args\<lparr>arg_max_price := None\<rparr>)
     = Inr \<lparr>total_count = 3, page = 1,
            trades = [sample_trade ''1'' 9 700, sample_trade ''0'' 5 5, sample_trade ''2'' 2 40]\<rparr>"
    "get_trades sample_db (default_args\<lparr>arg_min_price := None\<rparr>)
     = Inr \<lparr>total_count = 3, page = 1,
            trades = [sample_trade ''1'' 9 700, sample_trade ''0'' 5 5, sample_trade ''2'' 2 40]\<rparr>"
    "get_trades sample_db (default_args\<lparr>arg_asset_class := None\<rparr>)
     = Inr \<lparr>total_count = 3, page = 1,
            trades = [sample_trade ''1'' 9 700, sample_trade ''0'' 5 5, sample_trade ''2'' 2 40]\<rparr>"
    by code_simp+
  from zero_or_empty_parameter_is_ignored[of sample_db default_args] g show ?thesis by simp
qed

subsection \<open>When the list endpoint answers with a page\<close>

lemma narrow_subset: "set (narrow p tr test xs) \<subseteq> set xs"
  by (auto simp: narrow_filter)

lemma narrow_e_naive:
  assumes "\<forall>t\<in>set xs. is_naive (trade_date_time t)"
    and "\<forall>d. p = Some d \<longrightarrow> is_naive d"
    and "test = (\<lambda>e t. dt_le (trade_date_time t) e) \<or> test = (\<lambda>e t. dt_ge (trade_date_time t) e)"
  shows "\<exists>ys. narrow_e p test xs = Inr ys \<and> set ys \<subseteq> set xs"
proof (cases p)
  case None
  then show ?thesis by (simp add: narrow_e_def)
next
  case (Some d)
  with assms(2) have d: "is_naive d" by simp
  have "\<forall>t\<in>set xs. \<exists>b. test d t = Inr b"
    using assms(1,3) d by (auto simp: dt_le_same_kind dt_ge_same_kind)
  from filter_e_total[OF this] Some show ?thesis by (auto simp: narrow_e_def)
qed

lemma py_slice_subset: "set (py_slice xs s e) \<subseteq> set xs"
  unfolding py_slice_def Let_def
  by (meson set_take_subset set_drop_subset subset_trans)

lemma paginate_sort_naive:
  assumes "\<forall>t\<in>set found. is_naive (trade_date_time t)"
  shows "\<exists>r. paginate_sort found pg lmt srt = Inr r"
proof -
  have "sortable (py_slice found ((pg - 1) * lmt) ((pg - 1) * lmt + lmt))"
    using assms py_slice_subset[of found] by (auto simp: sortable_def list_all_iff)
  then show ?thesis by (simp add: paginate_sort_def Let_def py_sort_def)
qed

text \<open>
  With naive trade dates, as the generator makes them, and naive bounds, no comparison
  raises and the list endpoint returns a page.
\<close>

lemma get_trades_returns:
  assumes db: "\<forall>t\<in>set db. is_naive (trade_date_time t)"
    and e: "\<forall>d. arg_end a = Some d \<longrightarrow> is_naive d"
    and s: "\<forall>d. arg_start a = Some d \<longrightarrow> is_naive d"
  shows "\<exists>r. get_trades db a = Inr r"
proof -
  define f1 where "f1 = narrow (arg_asset_class a) str_truthy (\<lambda>c t. asset_class t = Some c) db"
  have n1: "\<forall>t\<in>set f1. is_naive (trade_date_time t)"
    using db narrow_subset[of "arg_asset_class a" str_truthy _ db] unfolding f1_def by blast
  from narrow_e_naive[OF n1 e] obtain f2 where
    f2: "narrow_e (arg_end a) (\<lambda>e t. dt_le (trade_date_time t) e) f1 = Inr f2" "set f2 \<subseteq> set f1"
    by blast
  define f4 where "f4 = narrow (arg_min_price a) float_truthy
                      (\<lambda>m t. float_ge (price (trade_details t)) m)
                      (narrow (arg_max_price a) float_truthy
                         (\<lambda>m t. float_le (price (trade_details t)) m) f2)"
  have "set f4 \<subseteq> set f2" unfolding f4_def by (meson narrow_subset subset_trans)
  with n1 f2(2) have n4: "\<forall>t\<in>set f4. is_naive (trade_date_time t)" by blast
  from narrow_e_naive[OF n4 s] obtain f5 where
    f5: "narrow_e (arg_start a) (\<lambda>s t. dt_ge (trade_date_time t) s) f4 = Inr f5" "set f5 \<subseteq> set f4"
    by blast
  define f6 where "f6 = narrow (arg_trade_type a) str_truthy
                       (\<lambda>k t. buySellIndicator (trade_details t) = k) f5"
  have "set f6 \<subseteq> set f5" unfolding f6_def by (rule narrow_subset)
  with n4 f5(2) have n6: "\<forall>t\<in>set f6. is_naive (trade_date_time t)" by blast
  have "filtered_trades db a = Inr f6"
    using f2(1) f5(1) by (simp add: filtered_trades_def Let_def f1_def f4_def f6_def)
  with paginate_sort_naive[OF n6] show ?thesis by (simp add: get_trades_def)
qed

text \<open>A bound with a time zone against the naive dates of the collection: the error response.\<close>

lemma get_trades_aware_bound:
  "get_trades sample_db (default_args\<lparr>arg_start := Some (Aware 0)\<rparr>) = Inl naive_aware_msg"
  by code_simp

subsection \<open>Search\<close>

lemma py_in_sublist: "py_in a b \<longleftrightarrow> sublist a b"
  by (induction b) (auto simp: sublist_Cons_right)

lemma matches_empty: "matches [] t"
  by (simp add: matches_def py_lower_def py_in_sublist)

text \<open>
  C5. For every collection, a search with q = "" matches every record: total_count is
  the size of the collection, and the page is the pagination slice of the whole
  collection, sorted as every page is.
\<close>

theorem empty_query_matches_every_record:
  "searched_trades db [] = db
   \<and> search_trades db [] pg lmt srt = paginate_sort db pg lmt srt
   \<and> (\<forall>r. search_trades db [] pg lmt srt = Inr r \<longrightarrow>
         total_count r = length db
         \<and> mset (trades r) = mset (py_slice db ((pg - 1) * lmt) ((pg - 1) * lmt + lmt))
         \<and> py_sort (py_lower srt = ''desc'') (py_slice db ((pg - 1) * lmt) ((pg - 1) * lmt + lmt))
             = Inr (trades r))"
proof -
  have 1: "searched_trades db [] = db"
    by (simp add: searched_trades_filter matches_empty)
  then have 2: "search_trades db [] pg lmt srt = paginate_sort db pg lmt srt"
    by (simp add: search_trades_def)
  show ?thesis
    unfolding 2 using 1 paginate_sort_Inr[of db pg lmt srt] py_sort_mset by auto
qed

theorem empty_query_matches_every_record_witness:
  "searched_trades sample_db [] = sample_db
   \<and> search_trades sample_db [] 2 2 ''desc''
       = Inr \<lparr>total_count = 3, page = 2, trades = [sample_trade ''2'' 2 40]\<rparr>
   \<and> length sample_db = 3
   \<and> py_slice sample_db ((2 - 1) * 2) ((2 - 1) * 2 + 2) = [sample_trade ''2'' 2 40]"
proof -
  have g: "search_trades sample_db [] 2 2 ''desc''
       = Inr \<lparr>total_count = 3, page = 2, trades = [sample_trade ''2'' 2 40]\<rparr>"
    by code_simp
  have l: "length sample_db = 3"
    "py_slice sample_db ((2 - 1) * 2) ((2 - 1) * 2 + 2) = [sample_trade ''2'' 2 40]"
    by (simp_all add: sample_db_def py_slice_def slice_index_def)
  from empty_query_matches_every_record[of sample_db 2 2 "''desc''"] g l show ?thesis by simp
qed

text \<open>The capitals of U+00C0..U+00DE are lower-cased, the signs U+00D7 and U+00DF are kept.\<close>

lemma py_lower_latin1_capitals:
  "py_lower [CHR 0x41, CHR 0x5A, CHR 0xC0, CHR 0xC9, CHR 0xD7, CHR 0xDE, CHR 0xDF]
     = [CHR 0x61, CHR 0x7A, CHR 0xE0, CHR 0xE9, CHR 0xD7, CHR 0xFE, CHR 0xDF]"
  by code_simp








subsection \<open>Lookup by id\<close>

lemma get_trade_by_id_find:
  "get_trade_by_id db tid =
     (case find (\<lambda>t. trade_id t = Some tid) db of
        None \<Rightarrow> Inl ''Trade not found''
      | Some t \<Rightarrow> Inr t)"
  by (induction db) auto

lemma get_trade_by_id_first:
  assumes "i < length db" and "trade_id (db ! i) = Some tid"
    and "\<forall>j<i. trade_id (db ! j) \<noteq> Some tid"
  shows "get_trade_by_id db tid = Inr (db ! i)"
  using assms
proof (induction db arbitrary: i)
  case Nil
  then show ?case by simp
next
  case (Cons t ts)
  show ?case
  proof (cases i)
    case 0
    with Cons.prems show ?thesis by simp
  next
    case (Suc k)
    with Cons.prems have "trade_id t \<noteq> Some tid" by auto
    moreover have "get_trade_by_id ts tid = Inr (ts ! k)"
      using Cons.prems Suc by (intro Cons.IH) auto
    ultimately show ?thesis using Suc by simp
  qed
qed

lemma get_trade_by_id_none:
  "\<forall>t\<in>set db. trade_id t \<noteq> Some tid \<Longrightarrow> get_trade_by_id db tid = Inl ''Trade not found''"
  by (induction db) auto

text \<open>
  C7. For every trade_id, the lookup scans the collection in order and returns the
  first record whose tradeId equals trade_id; when no record has that tradeId it
  returns the object {"error": "Trade not found"}.
\<close>

theorem lookup_returns_first_match_or_not_found:
  "(i < length db \<and> trade_id (db ! i) = Some tid \<and> (\<forall>j<i. trade_id (db ! j) \<noteq> Some tid)
      \<longrightarrow> get_trade_by_id db tid = Inr (db ! i))
   \<and> ((\<forall>t\<in>set db. trade_id t \<noteq> Some tid)
      \<longrightarrow> get_trade_by_id db tid = Inl ''Trade not found'')"
  using get_trade_by_id_first[of i db tid] get_trade_by_id_none[of db tid] by blast

theorem lookup_returns_first_match_or_not_found_witness:
  "(1::nat) < length sample_db \<and> trade_id (sample_db ! 1) = Some ''1''
   \<and> trade_id (sample_db ! 0) \<noteq> Some ''1''
   \<and> get_trade_by_id sample_db ''1'' = Inr (sample_db ! 1)
   \<and> trade_id (sample_db ! 0) \<noteq> Some ''9999'' \<and> trade_id (sample_db ! 1) \<noteq> Some ''9999''
   \<and> trade_id (sample_db ! 2) \<noteq> Some ''9999''
   \<and> get_trade_by_id sample_db ''9999'' = Inl ''Trade not found''"
proof -
  have a: "(1::nat) < length sample_db" "trade_id (sample_db ! 1) = Some ''1''"
    "trade_id (sample_db ! 0) \<noteq> Some ''1''"
    by (simp_all add: sample_db_def sample_trade_def)
  then have a': "\<forall>j<1. trade_id (sample_db ! j) \<noteq> Some ''1''" by simp
  have b: "\<forall>t\<in>set sample_db. trade_id t \<noteq> Some ''9999''"
    by (simp add: sample_db_def sample_trade_def)
  have c: "trade_id (sample_db ! 0) \<noteq> Some ''9999''" "trade_id (sample_db ! 1) \<noteq> Some ''9999''"
    "trade_id (sample_db ! 2) \<noteq> Some ''9999''"
    by (simp_all add: sample_db_def sample_trade_def)
  from lookup_returns_first_match_or_not_found[of 1 sample_db "''1''"]
    lookup_returns_first_match_or_not_found[of 0 sample_db "''9999''"] a a' b c
  show ?thesis by simp
qed

subsection \<open>The generated dataset\<close>

lemma generate_db_map: "generate_db rng = map (make_trade rng) [0..<100]"
proof -
  have "foldl (\<lambda>trades_db i. trades_db @ [make_trade rng i]) acc is = acc @ map (make_trade rng) is"
    for acc "is"
    by (induction "is" arbitrary: acc) auto
  then show ?thesis by (simp add: generate_db_def)
qed

lemma digit_char_value: "d < 10 \<Longrightarrow> of_char (digit_char d) - 48 = d"
  by (simp add: digit_char_def)

lemma decimal_value_snoc:
  "decimal_value (s @ [c]) = 10 * decimal_value s + (of_char c - 48)"
  by (simp add: decimal_value_def)

text \<open>\<open>str_nat\<close> writes the decimal numeral of its argument.\<close>

lemma decimal_value_str_nat: "decimal_value (str_nat n) = n"
proof (induction n rule: str_nat.induct)
  case (1 n)
  show ?case
  proof (cases "n < 10")
    case True
    then show ?thesis
      by (subst str_nat.simps) (simp add: decimal_value_def digit_char_value)
  next
    case False
    have "decimal_value (str_nat n) = 10 * decimal_value (str_nat (n div 10)) + n mod 10"
      using False by (subst str_nat.simps) (simp add: decimal_value_snoc digit_char_value)
    with 1 False show ?thesis by simp
  qed
qed

lemma str_nat_inj: "str_nat m = str_nat n \<Longrightarrow> m = n"
  by (metis decimal_value_str_nat)

text \<open>
  C9. The generator produces exactly 100 records; for every index i in 0..99 the i-th
  record has the decimal string of i as tradeId and the trader at position i modulo 5
  of the trader list; so the tradeIds of the collection are pairwise distinct.
\<close>

theorem generated_ids_and_traders:
  "length (generate_db rng) = 100
   \<and> (\<forall>i<100. trade_id (generate_db rng ! i) = Some (str_nat i)
              \<and> decimal_value (str_nat i) = i
              \<and> trader (generate_db rng ! i) = traders ! (i mod 5))
   \<and> length traders = 5
   \<and> distinct (map trade_id (generate_db rng))"
proof -
  have 1: "length (generate_db rng) = 100" by (simp add: generate_db_map)
  have 5: "length traders = 5" by (simp add: traders_def)
  have 2: "trade_id (generate_db rng ! i) = Some (str_nat i)
        \<and> decimal_value (str_nat i) = i
        \<and> trader (generate_db rng ! i) = traders ! (i mod 5)" if "i < 100" for i
    using that 5 by (simp add: generate_db_map make_trade_def decimal_value_str_nat)
  have "map trade_id (generate_db rng) = map (\<lambda>i. Some (str_nat i)) [0..<100]"
    by (simp add: generate_db_map make_trade_def)
  moreover have "inj_on (\<lambda>i. Some (str_nat i)) (set [0..<100])"
    by (auto intro!: inj_onI dest: str_nat_inj)
  ultimately have 3: "distinct (map trade_id (generate_db rng))"
    by (simp add: distinct_map)
  from 1 2 3 5 show ?thesis by blast
qed

theorem generated_ids_and_traders_witness:
  "(42::nat) < 100
   \<and> trade_id (generate_db (\<lambda>k. 7 * k + 3) ! 42) = Some ''42''
   \<and> trader (generate_db (\<lambda>k. 7 * k + 3) ! 42) = ''Bob Johnson''
   \<and> trade_id (generate_db (\<lambda>k. 7 * k + 3) ! 99) = Some ''99''
   \<and> trader (generate_db (\<lambda>k. 7 * k + 3) ! 99) = ''Robert Johnson''"
proof -
  have s: "str_nat 42 = ''42''" "str_nat 99 = ''99''" by code_simp+
  have t: "traders ! (42 mod 5) = ''Bob Johnson''" "traders ! (99 mod 5) = ''Robert Johnson''"
    by (simp_all add: traders_def)
  from generated_ids_and_traders[of "\<lambda>k. 7 * k + 3"] s t show ?thesis by simp
qed

text \<open>The drawn fields stay in their vocabularies and ranges, and every date is naive.\<close>

lemma randint_range:
  assumes "lo \<le> hi"
  shows "lo \<le> randint rng k lo hi \<and> randint rng k lo hi \<le> hi"
proof -
  have "0 < nat (hi - lo + 1)" using assms by simp
  then have "rng k mod nat (hi - lo + 1) < nat (hi - lo + 1)" by (rule mod_less_divisor)
  then have "int (rng k mod nat (hi - lo + 1)) < hi - lo + 1" by linarith
  then show ?thesis by (simp add: randint_def)
qed

lemma generated_dates_naive: "\<forall>t\<in>set (generate_db rng). is_naive (trade_date_time t)"
  by (auto simp: generate_db_map make_trade_def mk_datetime_def)

lemma generated_price_range:
  assumes "i < 100"
  shows "\<exists>n. price (trade_details (generate_db rng ! i)) = Fin (of_int n) \<and> 1 \<le> n \<and> n \<le> 1000"
  using assms randint_range[of 1 1000 rng "9 * i + 7"]
  by (auto simp: generate_db_map make_trade_def)

subsection \<open>The stored collection is never written\<close>

lemma narrow_st_spec:
  assumes "narrow_st p tr test ref s = (r, s')" and "ref < length (lists s)"
  shows "r < length (lists s')" and "lists s' ! r = narrow p tr test (lists s ! ref)"
    and "prefix (lists s) (lists s')"
  using assms
  by (auto simp: narrow_st_def narrow_def new_list_def nth_append split: option.splits if_splits)

lemma narrow_st_prefix:
  "narrow_st p tr test ref s = (r, s') \<Longrightarrow> prefix (lists s) (lists s')"
  by (auto simp: narrow_st_def new_list_def split: option.splits if_splits)

lemma narrow_e_st_prefix:
  "narrow_e_st p test ref s = (res, s') \<Longrightarrow> prefix (lists s) (lists s')"
  by (auto simp: narrow_e_st_def new_list_def split: option.splits sum.splits)

lemma narrow_e_st_spec:
  assumes "ref < length (lists s)"
  shows "case narrow_e_st p test ref s of
           (Inl e, s') \<Rightarrow> narrow_e p test (lists s ! ref) = Inl e
         | (Inr r, s') \<Rightarrow> r < length (lists s')
                            \<and> narrow_e p test (lists s ! ref) = Inr (lists s' ! r)"
  using assms
  by (auto simp: narrow_e_st_def narrow_e_def new_list_def nth_append split: option.splits sum.splits)

lemma paginate_sort_st_lists:
  "\<exists>page_list. lists (snd (paginate_sort_st found pg lmt srt s)) = lists s @ [page_list]"
  by (auto simp: paginate_sort_st_def sort_st_def new_list_def Let_def split: sum.splits)

lemma paginate_sort_st_prefix:
  "paginate_sort_st found pg lmt srt s = (res, s') \<Longrightarrow> prefix (lists s) (lists s')"
  using paginate_sort_st_lists[of found pg lmt srt s] by auto

lemma paginate_sort_st_result:
  "fst (paginate_sort_st found pg lmt srt s) = paginate_sort (lists s ! found) pg lmt srt"
  by (auto simp: paginate_sort_st_def paginate_sort_def sort_st_def new_list_def Let_def
      split: sum.splits)


lemma get_trades_st_spec:
  assumes "db < length (lists s0)"
  shows "fst (get_trades_st db a s0) = get_trades (lists s0 ! db) a
       \<and> prefix (lists s0) (lists (snd (get_trades_st db a s0)))"
proof -
  obtain f1 s1 where 1: "narrow_st (arg_asset_class a) str_truthy
                       (\<lambda>c t. asset_class t = Some c) db s0 = (f1, s1)"
    by fastforce
  note n1 = narrow_st_spec[OF 1 assms]
  obtain r2 s2 where 2: "narrow_e_st (arg_end a) (\<lambda>e t. dt_le (trade_date_time t) e) f1 s1 = (r2, s2)"
    by fastforce
  have p2: "prefix (lists s0) (lists s2)"
    using n1(3) narrow_e_st_prefix[OF 2] by (rule prefix_order.trans)
  note e2 = narrow_e_st_spec[OF n1(1), of "arg_end a" "\<lambda>e t. dt_le (trade_date_time t) e",
      unfolded 2 n1(2), simplified]
  show ?thesis
  proof (cases r2)
    case (Inl e)
    with e2 1 2 p2 show ?thesis
      by (simp add: get_trades_st_def get_trades_def filtered_trades_def Let_def)
  next
    case (Inr f2)
    with e2 have f2: "f2 < length (lists s2)"
      and v2: "narrow_e (arg_end a) (\<lambda>e t. dt_le (trade_date_time t) e)
                 (narrow (arg_asset_class a) str_truthy (\<lambda>c t. asset_class t = Some c)
                    (lists s0 ! db)) = Inr (lists s2 ! f2)"
      by simp_all
    obtain f3 s3 where 3: "narrow_st (arg_max_price a) float_truthy
                               (\<lambda>m t. float_le (price (trade_details t)) m) f2 s2 = (f3, s3)"
      by fastforce
    note n3 = narrow_st_spec[OF 3 f2]
    obtain f4 s4 where 4: "narrow_st (arg_min_price a) float_truthy
                               (\<lambda>m t. float_ge (price (trade_details t)) m) f3 s3 = (f4, s4)"
      by fastforce
    note n4 = narrow_st_spec[OF 4 n3(1)]
    obtain r5 s5 where 5: "narrow_e_st (arg_start a) (\<lambda>s t. dt_ge (trade_date_time t) s) f4 s4 = (r5, s5)"
      by fastforce
    have p5: "prefix (lists s0) (lists s5)"
      using p2 n3(3) n4(3) narrow_e_st_prefix[OF 5] by (meson prefix_order.trans)
    note e5 = narrow_e_st_spec[OF n4(1), of "arg_start a" "\<lambda>s t. dt_ge (trade_date_time t) s",
        unfolded 5 n4(2) n3(2), simplified]
    show ?thesis
    proof (cases r5)
      case (Inl e)
      with e5 1 2 3 4 5 p5 Inr v2 show ?thesis
        by (simp add: get_trades_st_def get_trades_def filtered_trades_def Let_def)
    next
      case r5: (Inr f5)
      with e5 have f5: "f5 < length (lists s5)"
        and v5: "narrow_e (arg_start a) (\<lambda>s t. dt_ge (trade_date_time t) s)
                   (narrow (arg_min_price a) float_truthy
                      (\<lambda>m t. float_ge (price (trade_details t)) m)
                      (narrow (arg_max_price a) float_truthy
                         (\<lambda>m t. float_le (price (trade_details t)) m) (lists s2 ! f2)))
                 = Inr (lists s5 ! f5)"
        by simp_all
      obtain f6 s6 where 6: "narrow_st (arg_trade_type a) str_truthy
                                       (\<lambda>k t. buySellIndicator (trade_details t) = k) f5 s5 = (f6, s6)"
        by fastforce
      note n6 = narrow_st_spec[OF 6 f5]
      have run: "get_trades_st db a s0
                  = paginate_sort_st f6 (arg_page a) (arg_limit a) (arg_sort a) s6"
        using 1 2 3 4 5 6 Inr r5 by (simp add: get_trades_st_def)
      have flt: "filtered_trades (lists s0 ! db) a = Inr (lists s6 ! f6)"
        using v2 v5 n6(2) by (simp add: filtered_trades_def Let_def)
      have "prefix (lists s0) (lists (snd (paginate_sort_st f6 (arg_page a) (arg_limit a) (arg_sort a) s6)))"
        using p5 n6(3) paginate_sort_st_prefix[OF surjective_pairing]
        by (meson prefix_order.trans)
      with run flt show ?thesis
        by (simp add: get_trades_def paginate_sort_st_result)
    qed
  qed
qed


lemma search_loop_lists:
  "lists (foldl (\<lambda>s t. if matches q t then append_st (length L) t s else s)
            (s\<lparr>lists := L @ [acc]\<rparr>) ts)
     = L @ [acc @ filter (matches q) ts]"
proof (induction ts arbitrary: acc s)
  case Nil
  then show ?case by simp
next
  case (Cons t ts)
  have "append_st (length L) t (s\<lparr>lists := L @ [acc]\<rparr>) = s\<lparr>lists := L @ [acc @ [t]]\<rparr>"
    by (simp add: append_st_def)
  with Cons.IH[of "acc @ [t]" s] Cons.IH[of acc s] show ?case by simp
qed

lemma search_trades_st_spec:
  assumes "db < length (lists s0)"
  shows "fst (search_trades_st db q pg lmt srt s0) = search_trades (lists s0 ! db) q pg lmt srt
       \<and> prefix (lists s0) (lists (snd (search_trades_st db q pg lmt srt s0)))"
proof -
  define s2 where "s2 = foldl (\<lambda>s t. if matches q t then append_st (length (lists s0)) t s else s)
                          (s0\<lparr>lists := lists s0 @ [[]]\<rparr>) (lists s0 ! db)"
  have run: "search_trades_st db q pg lmt srt s0
               = paginate_sort_st (length (lists s0)) pg lmt srt s2"
    using assms by (simp add: search_trades_st_def new_list_def s2_def nth_append)
  have l2: "lists s2 = lists s0 @ [filter (matches q) (lists s0 ! db)]"
    unfolding s2_def using search_loop_lists[where q = q and L = "lists s0" and s = s0 and acc = "[]"] by simp
  have "prefix (lists s0) (lists (snd (paginate_sort_st (length (lists s0)) pg lmt srt s2)))"
    using paginate_sort_st_lists[of "length (lists s0)" pg lmt srt s2] l2 by auto
  with run l2 show ?thesis
    by (simp add: paginate_sort_st_result search_trades_def searched_trades_filter)
qed

lemma prefix_take: "prefix xs ys \<Longrightarrow> take (length xs) ys = xs"
  by (auto simp: prefix_def)

lemma prefix_nth: "prefix xs ys \<Longrightarrow> i < length xs \<Longrightarrow> ys ! i = xs ! i"
  by (auto simp: prefix_def nth_append)

text \<open>On the store the handlers answer what the handlers on values answer.\<close>

lemma store_endpoints_responses:
  assumes "db < length (lists s)"
  shows "fst (get_trades_st db a s) = get_trades (lists s ! db) a"
    and "fst (search_trades_st db q pg lmt srt s) = search_trades (lists s ! db) q pg lmt srt"
    and "fst (get_trade_by_id_st db tid s) = get_trade_by_id (lists s ! db) tid"
  using get_trades_st_spec[OF assms] search_trades_st_spec[OF assms]
  by (simp_all add: get_trade_by_id_st_def)

text \<open>
  C8. No request writes to the shared collection: after a call of the list, search or
  get-by-id endpoint, with any parameters, the stored trade list is the list it was
  before the call, as is every list object that existed before; sorting the page
  reorders a new list object only.
\<close>

theorem no_request_mutates_the_collection:
  assumes "db < length (lists s)"
  shows "lists (snd (get_trades_st db a s)) ! db = lists s ! db
       \<and> take (length (lists s)) (lists (snd (get_trades_st db a s))) = lists s
       \<and> lists (snd (search_trades_st db q pg lmt srt s)) ! db = lists s ! db
       \<and> take (length (lists s)) (lists (snd (search_trades_st db q pg lmt srt s))) = lists s
       \<and> lists (snd (get_trade_by_id_st db tid s)) = lists s"
proof -
  have g: "prefix (lists s) (lists (snd (get_trades_st db a s)))"
    using get_trades_st_spec[OF assms] by simp
  have f: "prefix (lists s) (lists (snd (search_trades_st db q pg lmt srt s)))"
    using search_trades_st_spec[OF assms] by simp
  show ?thesis
    using prefix_take[OF g] prefix_nth[OF g assms] prefix_take[OF f] prefix_nth[OF f assms]
    by (simp add: get_trade_by_id_st_def)
qed

theorem no_request_mutates_the_collection_witness:
  "(0::nat) < length (lists sample_state)
   \<and> lists sample_state ! 0 = sample_db
   \<and> get_trades_st 0 default_args sample_state
       = (Inr \<lparr>total_count = 3, page = 1,
               trades = [sample_trade ''1'' 9 700, sample_trade ''0'' 5 5, sample_trade ''2'' 2 40]\<rparr>,
          \<lparr>lists = [sample_db,
                     [sample_trade ''1'' 9 700, sample_trade ''0'' 5 5, sample_trade ''2'' 2 40]],
           stdout = []\<rparr>)
   \<and> lists (snd (get_trades_st 0 default_args sample_state)) ! 0 = sample_db
   \<and> lists (snd (search_trades_st 0 ''tesla'' 1 4 ''desc'' sample_state)) ! 0 = sample_db
   \<and> lists (snd (get_trade_by_id_st 0 ''1'' sample_state)) = [sample_db]"
proof -
  have h: "(0::nat) < length (lists sample_state)" "lists sample_state = [sample_db]"
    by (simp_all add: sample_state_def)
  have g: "get_trades_st 0 default_args sample_state
       = (Inr \<lparr>total_count = 3, page = 1,
               trades = [sample_trade ''1'' 9 700, sample_trade ''0'' 5 5, sample_trade ''2'' 2 40]\<rparr>,
          \<lparr>lists = [sample_db,
                     [sample_trade ''1'' 9 700, sample_trade ''0'' 5 5, sample_trade ''2'' 2 40]],
           stdout = []\<rparr>)"
    by code_simp
  from no_request_mutates_the_collection[OF h(1), of default_args "''tesla''" 1 4 "''desc''" "''1''"]
    h g show ?thesis by simp
qed

end
